theory Spec2Isabelle
  imports Main
begin

section \<open>Strings and the built-in string functions the importer calls\<close>

text \<open>
  The importer (\<^verbatim>\<open>linear-custom-import.js\<close>) works on strings delivered by the CSV
  parser and by the Linear SDK. A string is modelled as a \<^typ>\<open>string\<close>; the built-in
  functions below are given for ASCII text: the white space of \<^verbatim>\<open>trim\<close> and
  \<^verbatim>\<open>parseInt\<close> is TAB, LF, VT, FF, CR and SPACE, and \<^verbatim>\<open>toLowerCase\<close> maps
  \<^verbatim>\<open>A\<close>..\<^verbatim>\<open>Z\<close> to \<^verbatim>\<open>a\<close>..\<^verbatim>\<open>z\<close> and leaves every other character as it is.
\<close>

definition isWhiteSpace :: "char \<Rightarrow> bool" where
  "isWhiteSpace c = (let n = (of_char c :: nat) in (9 \<le> n \<and> n \<le> 13) \<or> n = 32)"

definition trimStart :: "string \<Rightarrow> string" where
  "trimStart s = dropWhile isWhiteSpace s"

definition trim :: "string \<Rightarrow> string" where
  "trim s = rev (dropWhile isWhiteSpace (rev (dropWhile isWhiteSpace s)))"

definition lowerChar :: "char \<Rightarrow> char" where
  "lowerChar c = (let n = (of_char c :: nat) in if 65 \<le> n \<and> n \<le> 90 then char_of (n + 32) else c)"

definition toLowerCase :: "string \<Rightarrow> string" where
  "toLowerCase s = map lowerChar s"

text \<open>\<^verbatim>\<open>s.split(',')\<close>: the pieces between the commas; a string without a comma (also
  the empty one) gives one piece.\<close>

fun split_comma :: "string \<Rightarrow> string list" where
  "split_comma [] = [[]]"
| "split_comma (c # cs) =
     (if c = CHR '','' then [] # split_comma cs
      else (c # hd (split_comma cs)) # tl (split_comma cs))"

subsection \<open>Digits\<close>

definition isDecDigit :: "char \<Rightarrow> bool" where
  "isDecDigit c = (let n = (of_char c :: nat) in 48 \<le> n \<and> n \<le> 57)"

definition isHexDigit :: "char \<Rightarrow> bool" where
  "isHexDigit c = (let n = (of_char c :: nat) in
     (48 \<le> n \<and> n \<le> 57) \<or> (97 \<le> n \<and> n \<le> 102) \<or> (65 \<le> n \<and> n \<le> 70))"

definition digitVal :: "char \<Rightarrow> int" where
  "digitVal c = (let n = (of_char c :: nat) in
     if 48 \<le> n \<and> n \<le> 57 then int n - 48
     else if 97 \<le> n \<and> n \<le> 102 then int n - 87
     else int n - 55)"

text \<open>The value of a digit string in radix \<open>r\<close>, most significant digit first.\<close>

definition digitsValue :: "int \<Rightarrow> string \<Rightarrow> int" where
  "digitsValue r ds = foldl (\<lambda>acc c. acc * r + digitVal c) 0 ds"

section \<open>The team resolver\<close>

text \<open>
  \<^verbatim>\<open>const uuidRegex = /^[0-9a-fA-F]{8}\b-[0-9a-fA-F]{4}\b-[0-9a-fA-F]{4}\b-[0-9a-fA-F]{4}\b-[0-9a-fA-F]{12}$/;\<close>

  The pattern is a sequence of items none of which needs backtracking: a run of exactly
  \<open>n\<close> hexadecimal digits, the word boundary \<^verbatim>\<open>\b\<close>, and the literal dash. It is
  anchored at both ends, and it has no flag, so \<^verbatim>\<open>$\<close> is the end of the input.
\<close>

datatype rx_item = HexRun nat | WordBoundary | Lit char

definition isWordChar :: "char \<Rightarrow> bool" where
  "isWordChar c = (let n = (of_char c :: nat) in
     (48 \<le> n \<and> n \<le> 57) \<or> (97 \<le> n \<and> n \<le> 122) \<or> (65 \<le> n \<and> n \<le> 90) \<or> n = 95)"

text \<open>\<^verbatim>\<open>\b\<close> holds where exactly one of the character before and the character after the
  position is a word character; the ends of the input count as non-word.\<close>

definition atWordBoundary :: "char option \<Rightarrow> string \<Rightarrow> bool" where
  "atWordBoundary prev rest =
     ((case prev of None \<Rightarrow> False | Some p \<Rightarrow> isWordChar p)
      \<noteq> (case rest of [] \<Rightarrow> False | n # _ \<Rightarrow> isWordChar n))"

text \<open>\<open>rx_match items prev s\<close>: the items match all of \<open>s\<close>, where \<open>prev\<close> is the
  character before \<open>s\<close> in the input.\<close>

fun rx_match :: "rx_item list \<Rightarrow> char option \<Rightarrow> string \<Rightarrow> bool" where
  "rx_match [] prev s = (s = [])"
| "rx_match (HexRun 0 # items) prev s = rx_match items prev s"
| "rx_match (HexRun (Suc n) # items) prev [] = False"
| "rx_match (HexRun (Suc n) # items) prev (c # cs) =
     (if isHexDigit c then rx_match (HexRun n # items) (Some c) cs else False)"
| "rx_match (WordBoundary # items) prev s =
     (if atWordBoundary prev s then rx_match items prev s else False)"
| "rx_match (Lit d # items) prev [] = False"
| "rx_match (Lit d # items) prev (c # cs) =
     (if c = d then rx_match items (Some c) cs else False)"

definition uuidRegex :: "rx_item list" where
  "uuidRegex =
     [HexRun 8, WordBoundary, Lit CHR ''-'',
      HexRun 4, WordBoundary, Lit CHR ''-'',
      HexRun 4, WordBoundary, Lit CHR ''-'',
      HexRun 4, WordBoundary, Lit CHR ''-'',
      HexRun 12]"

definition uuidRegex_test :: "string \<Rightarrow> bool" where
  "uuidRegex_test s = rx_match uuidRegex None s"

record team =
  team_id :: string
  team_key :: string
  team_name :: string

datatype fatal = UnresolvedTeamError

text \<open>The predicate of \<^verbatim>\<open>teams.nodes.find\<close> (lines 109-113).\<close>

definition teamMatches :: "string \<Rightarrow> team \<Rightarrow> bool" where
  "teamMatches targetTeamId t =
     (team_name t = targetTeamId \<or>
      team_key t = targetTeamId \<or>
      ''['' @ team_key t @ ''] '' @ team_name t = targetTeamId)"

text \<open>
  Lines 99-125. \<^verbatim>\<open>process.exit(1)\<close> after the failed search is the result
  \<open>Inl UnresolvedTeamError\<close>; a found team is an object, so \<^verbatim>\<open>if (matchedTeam)\<close> is
  taken exactly when \<^verbatim>\<open>find\<close> found one.
\<close>

definition resolveTeam :: "string \<Rightarrow> team list \<Rightarrow> fatal + string" where
  "resolveTeam targetTeamId teams =
     (if \<not> uuidRegex_test targetTeamId then
        (case find (teamMatches targetTeamId) teams of
           Some matchedTeam \<Rightarrow> Inr (team_id matchedTeam)
         | None \<Rightarrow> Inl UnresolvedTeamError)
      else Inr targetTeamId)"

section \<open>Numbers and \<^verbatim>\<open>parseInt\<close>\<close>

text \<open>
  A Number is a double. \<^verbatim>\<open>parseInt\<close> returns NaN, a zero of either sign, or the
  double of a non-zero integer, which is that integer whenever its absolute value is at
  most \<open>2 ^ 53\<close>. Beyond that the double is only near the integer (or infinite) and which
  one it is depends on the digits and on the engine; the model keeps such a result apart as
  \<open>Inexact n\<close>, with the integer \<open>n\<close> that was read, and does not compute it.
\<close>

datatype number = Num int | NegZero | NaN | Inexact int

definition toNumber :: "int \<Rightarrow> number" where
  "toNumber n = (if \<bar>n\<bar> \<le> 2 ^ 53 then Num n else Inexact n)"

text \<open>A Number is falsy when it is NaN or a zero.\<close>

fun numTruthy :: "number \<Rightarrow> bool" where
  "numTruthy (Num n) = (n \<noteq> 0)"
| "numTruthy NegZero = False"
| "numTruthy NaN = False"
| "numTruthy (Inexact n) = True"

definition isRadixDigit :: "int \<Rightarrow> char \<Rightarrow> bool" where
  "isRadixDigit R c = (if R = 16 then isHexDigit c else isDecDigit c)"

text \<open>
  \<^verbatim>\<open>parseInt(string)\<close> with no radix: leading white space is skipped, one sign is read,
  a following \<^verbatim>\<open>0x\<close> or \<^verbatim>\<open>0X\<close> selects radix 16 (otherwise the radix is 10), and the
  longest run of digits of that radix is the number; no digit gives NaN. What follows the
  digits is ignored.
\<close>

definition parseInt :: "string \<Rightarrow> number" where
  "parseInt inputString =
     (let S = trimStart inputString;
          sign = (case S of [] \<Rightarrow> 1 | c # _ \<Rightarrow> if c = CHR ''-'' then - 1 else (1::int));
          S1 = (case S of [] \<Rightarrow> []
                | c # cs \<Rightarrow> if c = CHR ''+'' \<or> c = CHR ''-'' then cs else S);
          hex = (take 2 S1 = ''0x'' \<or> take 2 S1 = ''0X'');
          R = (if hex then 16 else 10);
          S2 = (if hex then drop 2 S1 else S1);
          Z = takeWhile (isRadixDigit R) S2
      in if Z = [] then NaN
         else (let mathInt = digitsValue R Z
               in if mathInt = 0 then (if sign = - 1 then NegZero else Num 0)
                  else toNumber (sign * mathInt)))"

section \<open>Objects used as lookup tables\<close>

text \<open>
  \<^verbatim>\<open>statusMap\<close> and \<^verbatim>\<open>labelMap\<close> are created as \<^verbatim>\<open>{}\<close> and filled by
  \<^verbatim>\<open>map[name.toLowerCase()] = id\<close>; both are read by \<^verbatim>\<open>map[name]\<close>. They are
  ordinary objects: their own properties are the keys that were assigned (with the ids,
  which are strings), and a read of a name that is not an own property continues in
  \<^verbatim>\<open>Object.prototype\<close>. \<open>Inherited k\<close> is the object found there under \<open>k\<close> (a built-in
  function, or \<^verbatim>\<open>Object.prototype\<close> itself for \<^verbatim>\<open>__proto__\<close>).
\<close>

datatype jsval = Undefined | Str string | Inherited string

type_synonym js_object = "string \<rightharpoonup> string"

definition objectPrototypeProps :: "string list" where
  "objectPrototypeProps =
     [''constructor'', ''__proto__'', ''hasOwnProperty'', ''isPrototypeOf'',
      ''propertyIsEnumerable'', ''toLocaleString'', ''toString'', ''valueOf'',
      ''__defineGetter__'', ''__defineSetter__'', ''__lookupGetter__'', ''__lookupSetter__'']"

definition getProp :: "js_object \<Rightarrow> string \<Rightarrow> jsval" where
  "getProp obj k =
     (case obj k of
        Some v \<Rightarrow> Str v
      | None \<Rightarrow> if k \<in> set objectPrototypeProps then Inherited k else Undefined)"

text \<open>An assignment to \<^verbatim>\<open>__proto__\<close> runs the setter of \<^verbatim>\<open>Object.prototype\<close>, which
  ignores a string; every other name becomes (or overwrites) an own property.\<close>

definition setProp :: "js_object \<Rightarrow> string \<Rightarrow> string \<Rightarrow> js_object" where
  "setProp obj k v = (if k = ''__proto__'' then obj else obj(k \<mapsto> v))"

fun truthy :: "jsval \<Rightarrow> bool" where
  "truthy Undefined = False"
| "truthy (Str s) = (s \<noteq> [])"
| "truthy (Inherited k) = True"

record workflow_state =
  state_id :: string
  state_name :: string

record issue_label =
  label_id :: string
  label_name :: string

text \<open>Lines 134-137 and 140-143.\<close>

definition buildStatusMap :: "workflow_state list \<Rightarrow> js_object" where
  "buildStatusMap nodes =
     foldl (\<lambda>statusMap state. setProp statusMap (toLowerCase (state_name state)) (state_id state))
       Map.empty nodes"

definition buildLabelMap :: "issue_label list \<Rightarrow> js_object" where
  "buildLabelMap nodes =
     foldl (\<lambda>labelMap label. setProp labelMap (toLowerCase (label_name label)) (label_id label))
       Map.empty nodes"

section \<open>The row normalizer\<close>

text \<open>A row of the CSV parser: the columns of the header that the line has a cell for,
  each with the cell's text.\<close>

type_synonym raw_row = "string \<rightharpoonup> string"

text \<open>\<^verbatim>\<open>if (row[k])\<close> and \<^verbatim>\<open>row[k] || d\<close> test the cell for truthiness: it is there and
  it is not the empty string.\<close>

definition present :: "raw_row \<Rightarrow> string \<Rightarrow> bool" where
  "present row k = (case row k of None \<Rightarrow> False | Some s \<Rightarrow> s \<noteq> [])"

record issue_request =
  teamId :: string
  title :: string
  description :: string
  priority :: number
  estimate :: "number option"
  stateId :: jsval
  labelIds :: "jsval list option"

text \<open>Lines 169-196 and the argument of \<^verbatim>\<open>createIssue\<close> (lines 200-208).
  \<open>None\<close> is \<^verbatim>\<open>undefined\<close> for \<open>estimate\<close> and \<open>labelIds\<close>.\<close>

definition issueRequest :: "string \<Rightarrow> js_object \<Rightarrow> js_object \<Rightarrow> raw_row \<Rightarrow> issue_request" where
  "issueRequest targetTeamId statusMap labelMap row =
     (let title = (if present row ''Title'' then the (row ''Title'') else ''Untitled Issue'');
          description = (if present row ''Description'' then the (row ''Description'') else []);
          priority = (if present row ''Priority''
                      then (let p = parseInt (the (row ''Priority''))
                            in if numTruthy p then p else Num 0)
                      else Num 0);
          estimate = (if present row ''Estimate''
                      then Some (parseInt (the (row ''Estimate'')))
                      else None);
          stateId = (if present row ''Status''
                     then (let statusName = toLowerCase (trim (the (row ''Status'')))
                           in getProp statusMap statusName)
                     else Undefined);
          labelIds = (if present row ''Labels''
                      then (let labelNames = map (\<lambda>s. toLowerCase (trim s))
                                               (split_comma (the (row ''Labels'')))
                            in foldl (\<lambda>labelIds name.
                                        if truthy (getProp labelMap name)
                                        then labelIds @ [getProp labelMap name]
                                        else labelIds) [] labelNames)
                      else [])
      in \<lparr> teamId = targetTeamId, title = title, description = description,
           priority = priority, estimate = estimate, stateId = stateId,
           labelIds = (if length labelIds > 0 then Some labelIds else None) \<rparr>)"

section \<open>The import driver\<close>

text \<open>
  The issue-creation collaborator. Inside the \<^verbatim>\<open>try\<close> the driver awaits
  \<^verbatim>\<open>linearClient.createIssue\<close> and then the payload's issue; either may reject, and
  both rejections reach the same \<^verbatim>\<open>catch\<close>, so they are one outcome here. The SDK
  rejects with error objects, which have a message. The collaborator may answer
  differently from call to call: it reads and changes a state \<open>'w\<close> of its own.
\<close>

datatype js_error = JsError (message: string)

datatype create_outcome =
    Throws js_error
  | IssueUrl string
  | NoIssue jsval

type_synonym 'w collaborator = "'w \<Rightarrow> issue_request \<Rightarrow> create_outcome \<times> 'w"

text \<open>The lines the driver prints: the announcement, a created issue with its URL, a
  created issue with the payload's id (when the payload has no issue), a failure with the
  error's message, and the final tally.\<close>

datatype console_line =
    Importing nat
  | Created string string
  | CreatedId string jsval
  | Failed string string
  | Done nat nat

record 'w import_state =
  successCount :: nat
  failCount :: nat
  console :: "console_line list"
  world :: 'w

text \<open>One turn of the loop (lines 168-226).\<close>

definition processRow ::
  "'w collaborator \<Rightarrow> string \<Rightarrow> js_object \<Rightarrow> js_object \<Rightarrow> 'w import_state \<Rightarrow> raw_row
     \<Rightarrow> 'w import_state" where
  "processRow createIssue targetTeamId statusMap labelMap st row =
     (let req = issueRequest targetTeamId statusMap labelMap row;
          res = createIssue (world st) req
      in case fst res of
           IssueUrl issueUrl \<Rightarrow>
             st\<lparr> successCount := successCount st + 1,
                 console := console st @ [Created (title req) issueUrl],
                 world := snd res \<rparr>
         | NoIssue payloadId \<Rightarrow>
             st\<lparr> successCount := successCount st + 1,
                 console := console st @ [CreatedId (title req) payloadId],
                 world := snd res \<rparr>
         | Throws err \<Rightarrow>
             st\<lparr> failCount := failCount st + 1,
                 console := console st @ [Failed (title req) (message err)],
                 world := snd res \<rparr>)"

definition importRows ::
  "'w collaborator \<Rightarrow> string \<Rightarrow> js_object \<Rightarrow> js_object \<Rightarrow> 'w import_state \<Rightarrow> raw_row list
     \<Rightarrow> 'w import_state" where
  "importRows createIssue targetTeamId statusMap labelMap st results =
     foldl (processRow createIssue targetTeamId statusMap labelMap) st results"

text \<open>The handler of the parser's \<^verbatim>\<open>end\<close> event (lines 162-229).\<close>

definition runImport ::
  "'w collaborator \<Rightarrow> string \<Rightarrow> js_object \<Rightarrow> js_object \<Rightarrow> raw_row list \<Rightarrow> 'w
     \<Rightarrow> 'w import_state" where
  "runImport createIssue targetTeamId statusMap labelMap results w =
     (let st0 = \<lparr> successCount = 0, failCount = 0,
                  console = [Importing (length results)], world = w \<rparr>;
          st = importRows createIssue targetTeamId statusMap labelMap st0 results
      in st\<lparr> console := console st @ [Done (successCount st) (failCount st)] \<rparr>)"

section \<open>The run, from the team selection on\<close>

text \<open>
  \<^verbatim>\<open>main\<close> from line 73: the teams, the answer of the team prompt, the workflow states
  of a team and the labels of the workspace, the answer of the confirmation prompt and the
  parsed rows are inputs. \<open>Exited c\<close> is \<^verbatim>\<open>process.exit(c)\<close>; it happens before the first
  row. The messages printed before the import are not modelled.
\<close>

datatype 'w run_result = Exited nat | Imported "'w import_state"

definition main ::
  "team list \<Rightarrow> string \<Rightarrow> (string \<Rightarrow> workflow_state list) \<Rightarrow> issue_label list \<Rightarrow> bool
     \<Rightarrow> raw_row list \<Rightarrow> 'w collaborator \<Rightarrow> 'w \<Rightarrow> 'w run_result" where
  "main teams teamSelection workflowStates issueLabels go results createIssue w =
     (if length teams = 0 then Exited 1
      else (case resolveTeam teamSelection teams of
              Inl UnresolvedTeamError \<Rightarrow> Exited 1
            | Inr targetTeamId \<Rightarrow>
                (let statusMap = buildStatusMap (workflowStates targetTeamId);
                     labelMap = buildLabelMap issueLabels
                 in if \<not> go then Exited 0
                    else Imported (runImport createIssue targetTeamId statusMap labelMap
                                     results w))))"

section \<open>The identifier pattern in the words of the specification\<close>

text \<open>
  The specification describes the pattern as: eight hex digits, dash, four hex, dash, four
  hex, dash, four hex, dash, twelve hex, case-insensitive. \<open>identifierShaped\<close> follows these
  words: each step takes its part from the front of the string, and nothing may be left.
  It is compared with the regular expression of the source in \<open>uuidRegex_test_iff\<close> below.
\<close>

definition hexDigits :: "nat \<Rightarrow> string \<Rightarrow> string option" where
  "hexDigits n s =
     (if n \<le> length s \<and> list_all isHexDigit (take n s) then Some (drop n s) else None)"

definition dash :: "string \<Rightarrow> string option" where
  "dash s = (case s of [] \<Rightarrow> None | c # cs \<Rightarrow> if c = CHR ''-'' then Some cs else None)"

definition identifierShaped :: "string \<Rightarrow> bool" where
  "identifierShaped s =
     (fold (\<lambda>step r. Option.bind r step)
        [hexDigits 8, dash, hexDigits 4, dash, hexDigits 4, dash, hexDigits 4, dash, hexDigits 12]
        (Some s) = Some [])"

section \<open>The regular expression and the described pattern agree\<close>

lemma rx_hexrun:
  "rx_match (HexRun n # items) prev s =
     (n \<le> length s \<and> list_all isHexDigit (take n s) \<and>
      rx_match items (if n = 0 then prev else Some (s ! (n - 1))) (drop n s))"
proof (induction n arbitrary: prev s)
  case 0
  show ?case by simp
next
  case (Suc n)
  show ?case
  proof (cases s)
    case Nil
    then show ?thesis by simp
  next
    case (Cons c cs)
    then show ?thesis using Suc [of "Some c" cs] by (cases n) auto
  qed
qed

lemma hex_is_word: "isHexDigit c \<Longrightarrow> isWordChar c"
  by (auto simp: isHexDigit_def isWordChar_def Let_def)

lemma dash_not_word: "\<not> isWordChar CHR ''-''"
  by (simp add: isWordChar_def)

text \<open>After a word character the boundary assertion in front of the dash always holds:
  it adds nothing to the literal dash.\<close>

lemma rx_boundary_dash:
  "isWordChar p \<Longrightarrow>
   rx_match (WordBoundary # Lit CHR ''-'' # items) (Some p) r =
     (\<exists>r'. dash r = Some r' \<and> rx_match items (Some CHR ''-'') r')"
  by (cases r) (auto simp: atWordBoundary_def dash_def dash_not_word)

lemma rx_group_dash:
  assumes "0 < n"
  shows "rx_match (HexRun n # WordBoundary # Lit CHR ''-'' # items) prev s =
           (\<exists>r r'. hexDigits n s = Some r \<and> dash r = Some r' \<and>
                    rx_match items (Some CHR ''-'') r')"
proof (cases "n \<le> length s \<and> list_all isHexDigit (take n s)")
  case False
  then show ?thesis by (auto simp: rx_hexrun hexDigits_def)
next
  case True
  with assms have "s ! (n - 1) \<in> set (take n s)"
    by (metis One_nat_def Suc_pred length_take lessI min.absorb2 nth_mem nth_take)
  with True have "isWordChar (s ! (n - 1))"
    by (auto simp: list_all_iff intro: hex_is_word)
  then have wc: "isWordChar (s ! (n - 1))" .
  have "rx_match (HexRun n # WordBoundary # Lit CHR ''-'' # items) prev s =
          rx_match (WordBoundary # Lit CHR ''-'' # items) (Some (s ! (n - 1))) (drop n s)"
    using True assms by (subst rx_hexrun) simp
  also have "\<dots> = (\<exists>r'. dash (drop n s) = Some r' \<and> rx_match items (Some CHR ''-'') r')"
    using wc by (rule rx_boundary_dash)
  also have "\<dots> = (\<exists>r r'. hexDigits n s = Some r \<and> dash r = Some r' \<and>
                    rx_match items (Some CHR ''-'') r')"
    using True by (simp add: hexDigits_def)
  finally show ?thesis .
qed

lemma rx_last_group:
  "rx_match [HexRun n] prev s = (hexDigits n s = Some [])"
  by (auto simp: rx_hexrun hexDigits_def)

lemma uuidRegex_test_iff: "uuidRegex_test s = identifierShaped s"
proof -
  have "uuidRegex_test s =
          (\<exists>r1 r1' r2 r2' r3 r3' r4 r4'.
             hexDigits 8 s = Some r1 \<and> dash r1 = Some r1' \<and>
             hexDigits 4 r1' = Some r2 \<and> dash r2 = Some r2' \<and>
             hexDigits 4 r2' = Some r3 \<and> dash r3 = Some r3' \<and>
             hexDigits 4 r3' = Some r4 \<and> dash r4 = Some r4' \<and>
             hexDigits 12 r4' = Some [])"
    unfolding uuidRegex_test_def uuidRegex_def
    by (simp add: rx_group_dash rx_last_group)
  also have "\<dots> = identifierShaped s"
    unfolding identifierShaped_def
    by (simp add: bind_eq_Some_conv)
  finally show ?thesis .
qed

section \<open>The team resolver: identifier-shaped selections\<close>

text \<open>
  C4. For every selection string that matches the identifier pattern (eight hex digits,
  dash, four hex, dash, four hex, dash, four hex, dash, twelve hex, in either case), the
  team resolver returns that string unchanged as the team id, whatever the team list is:
  the list is not searched.
\<close>

theorem identifier_selection_unchanged:
  "identifierShaped selection \<Longrightarrow> resolveTeam selection teams = Inr selection"
  by (simp add: resolveTeam_def uuidRegex_test_iff)

theorem identifier_selection_unchanged_witness:
  "identifierShaped ''9B2f0c1a-7D3e-4a5b-8c6D-0123456789aB'' \<and>
   resolveTeam ''9B2f0c1a-7D3e-4a5b-8c6D-0123456789aB''
     [\<lparr> team_id = ''other'', team_key = ''ENG'',
        team_name = ''9B2f0c1a-7D3e-4a5b-8c6D-0123456789aB'' \<rparr>]
     = Inr ''9B2f0c1a-7D3e-4a5b-8c6D-0123456789aB''"
proof -
  have h: "identifierShaped ''9B2f0c1a-7D3e-4a5b-8c6D-0123456789aB''" by code_simp
  from h identifier_selection_unchanged [OF h] show ?thesis by simp
qed

section \<open>The team resolver: display strings\<close>

text \<open>
  C5. For every selection string that does not match the identifier pattern, the team
  resolver returns the id of the first team, in the order of the list, whose name, key or
  composed \<^verbatim>\<open>[key] name\<close> string equals the selection (\<open>teamMatches\<close>); and if no team
  matches it fails with \<open>UnresolvedTeamError\<close> and the run exits with code 1 before any
  row is imported.
\<close>

theorem display_selection_first_match:
  assumes "\<not> identifierShaped selection"
  shows "(i < length teams \<and> teamMatches selection (teams ! i) \<and>
            (\<forall>j<i. \<not> teamMatches selection (teams ! j))
          \<longrightarrow> resolveTeam selection teams = Inr (team_id (teams ! i))) \<and>
         ((\<forall>t\<in>set teams. \<not> teamMatches selection t)
          \<longrightarrow> resolveTeam selection teams = Inl UnresolvedTeamError \<and>
              main teams selection wstates labels go results createIssue w = Exited 1)"
proof -
  have nt: "\<not> uuidRegex_test selection"
    using assms by (simp add: uuidRegex_test_iff)
  have found: "resolveTeam selection teams = Inr (team_id (teams ! i))"
    if "i < length teams" "teamMatches selection (teams ! i)"
       "\<forall>j<i. \<not> teamMatches selection (teams ! j)"
  proof -
    have "find (teamMatches selection) teams = Some (teams ! i)"
      using that by (auto simp: find_Some_iff)
    then show ?thesis using nt by (simp add: resolveTeam_def)
  qed
  have missing: "resolveTeam selection teams = Inl UnresolvedTeamError"
    if "\<forall>t\<in>set teams. \<not> teamMatches selection t"
  proof -
    have "find (teamMatches selection) teams = None"
      using that by (simp add: find_None_iff)
    then show ?thesis using nt by (simp add: resolveTeam_def)
  qed
  have exited: "main teams selection wstates labels go results createIssue w = Exited 1"
    if "resolveTeam selection teams = Inl UnresolvedTeamError"
    using that by (simp add: main_def)
  show ?thesis using found missing exited by blast
qed

theorem display_selection_first_match_witness:
  "\<not> identifierShaped ''OPS'' \<and>
   resolveTeam ''OPS''
     [\<lparr> team_id = ''id-eng'', team_key = ''ENG'', team_name = ''Engineering'' \<rparr>,
      \<lparr> team_id = ''id-ops'', team_key = ''OPS'', team_name = ''Operations'' \<rparr>,
      \<lparr> team_id = ''id-dup'', team_key = ''DUP'', team_name = ''OPS'' \<rparr>] = Inr ''id-ops'' \<and>
   \<not> identifierShaped ''[QA] Quality'' \<and>
   resolveTeam ''[QA] Quality''
     [\<lparr> team_id = ''id-eng'', team_key = ''ENG'', team_name = ''Engineering'' \<rparr>]
     = Inl UnresolvedTeamError \<and>
   main [\<lparr> team_id = ''id-eng'', team_key = ''ENG'', team_name = ''Engineering'' \<rparr>]
     ''[QA] Quality'' (\<lambda>t. []) [] True [Map.empty]
     (\<lambda>w req. (IssueUrl ''u'', Suc w)) (0::nat) = Exited 1"
proof -
  have h1: "\<not> identifierShaped ''OPS''" by code_simp
  have h2: "\<not> identifierShaped ''[QA] Quality''" by code_simp
  from display_selection_first_match [OF h1, of 1
      "[\<lparr> team_id = ''id-eng'', team_key = ''ENG'', team_name = ''Engineering'' \<rparr>,
        \<lparr> team_id = ''id-ops'', team_key = ''OPS'', team_name = ''Operations'' \<rparr>,
        \<lparr> team_id = ''id-dup'', team_key = ''DUP'', team_name = ''OPS'' \<rparr>]"]
  have a: "resolveTeam ''OPS''
     [\<lparr> team_id = ''id-eng'', team_key = ''ENG'', team_name = ''Engineering'' \<rparr>,
      \<lparr> team_id = ''id-ops'', team_key = ''OPS'', team_name = ''Operations'' \<rparr>,
      \<lparr> team_id = ''id-dup'', team_key = ''DUP'', team_name = ''OPS'' \<rparr>] = Inr ''id-ops''"
    by (simp add: teamMatches_def)
  from display_selection_first_match [OF h2, of 0
      "[\<lparr> team_id = ''id-eng'', team_key = ''ENG'', team_name = ''Engineering'' \<rparr>]"
      "\<lambda>t. []" "[]" True "[Map.empty]" "\<lambda>w req. (IssueUrl ''u'', Suc w)" "0::nat"]
  have b: "resolveTeam ''[QA] Quality''
     [\<lparr> team_id = ''id-eng'', team_key = ''ENG'', team_name = ''Engineering'' \<rparr>]
     = Inl UnresolvedTeamError \<and>
   main [\<lparr> team_id = ''id-eng'', team_key = ''ENG'', team_name = ''Engineering'' \<rparr>]
     ''[QA] Quality'' (\<lambda>t. []) [] True [Map.empty]
     (\<lambda>w req. (IssueUrl ''u'', Suc w)) (0::nat) = Exited 1"
    by (simp add: teamMatches_def)
  from h1 h2 a b show ?thesis by simp
qed

section \<open>The row normalizer: title, estimate and empty cells\<close>

text \<open>
  C3. For every row that has no Title field, the title of the produced request is the
  literal \<^verbatim>\<open>Untitled Issue\<close>; the row is not rejected: its request goes to the
  collaborator, and when the collaborator creates the issue the row is counted and
  reported as created under that title.
\<close>

theorem missing_title_untitled:
  assumes "row ''Title'' = None"
  shows "title (issueRequest tid sm lm row) = ''Untitled Issue'' \<and>
         (createIssue (world st) (issueRequest tid sm lm row) = (IssueUrl url, w') \<longrightarrow>
            processRow createIssue tid sm lm st row
              = st\<lparr> successCount := successCount st + 1,
                    console := console st @ [Created ''Untitled Issue'' url],
                    world := w' \<rparr>)"
proof -
  have t: "title (issueRequest tid sm lm row) = ''Untitled Issue''"
    using assms by (simp add: issueRequest_def present_def Let_def)
  show ?thesis using t by (simp add: processRow_def Let_def)
qed

theorem missing_title_untitled_witness:
  "title (issueRequest ''T'' Map.empty Map.empty [''Status'' \<mapsto> ''Todo'']) = ''Untitled Issue'' \<and>
   processRow (\<lambda>w req. (IssueUrl ''https://linear.app/i/1'', Suc w)) ''T'' Map.empty Map.empty
       \<lparr> successCount = 0, failCount = 0, console = [], world = (0::nat) \<rparr>
       [''Status'' \<mapsto> ''Todo'']
     = \<lparr> successCount = 1, failCount = 0,
         console = [Created ''Untitled Issue'' ''https://linear.app/i/1''], world = 1 \<rparr>"
proof -
  have h: "[''Status'' \<mapsto> ''Todo''] ''Title'' = None" by simp
  from missing_title_untitled
         [where row = "[''Status'' \<mapsto> ''Todo'']" and tid = "''T''" and sm = Map.empty
            and lm = Map.empty
            and createIssue = "\<lambda>w req. (IssueUrl ''https://linear.app/i/1'', Suc w)"
            and st = "\<lparr> successCount = 0, failCount = 0, console = [], world = (0::nat) \<rparr>"
            and url = "''https://linear.app/i/1''" and w' = 1, OF h]
  show ?thesis by simp
qed

text \<open>
  C8. For every row, the estimate of the produced request is absent when the Estimate
  field is missing, and when the field has a (non-empty) text that \<^verbatim>\<open>parseInt\<close> cannot
  read it is the NaN that \<^verbatim>\<open>parseInt\<close> returns: it is neither replaced by 0 nor
  dropped. (The empty text counts as missing, see C9.)
\<close>

theorem estimate_absent_or_nan:
  "(row ''Estimate'' = None \<longrightarrow> estimate (issueRequest tid sm lm row) = None) \<and>
   (row ''Estimate'' = Some s \<and> s \<noteq> [] \<and> parseInt s = NaN \<longrightarrow>
      estimate (issueRequest tid sm lm row) = Some NaN)"
  by (simp add: issueRequest_def present_def Let_def)

theorem estimate_absent_or_nan_witness:
  "estimate (issueRequest ''T'' Map.empty Map.empty Map.empty) = None \<and>
   parseInt ''soon'' = NaN \<and>
   estimate (issueRequest ''T'' Map.empty Map.empty [''Estimate'' \<mapsto> ''soon'']) = Some NaN"
proof -
  have p: "parseInt ''soon'' = NaN" by code_simp
  from estimate_absent_or_nan [of Map.empty "''T''" Map.empty Map.empty "''soon''"]
       estimate_absent_or_nan [of "[''Estimate'' \<mapsto> ''soon'']" "''T''" Map.empty Map.empty
                                  "''soon''"] p
  show ?thesis by simp
qed

text \<open>A request depends on a row only through the cells that are there and not empty.\<close>

lemma issueRequest_cong:
  assumes "present r1 = present r2" and "\<And>k. present r1 k \<Longrightarrow> r1 k = r2 k"
  shows "issueRequest tid sm lm r1 = issueRequest tid sm lm r2"
  using assms by (simp add: issueRequest_def Let_def)

lemma issueRequest_empty_cell:
  "issueRequest tid sm lm (row(k \<mapsto> [])) = issueRequest tid sm lm (row(k := None))"
  by (rule issueRequest_cong) (auto simp: present_def split: if_splits option.splits)

text \<open>
  C9. For every row, a field whose value is the empty string is treated exactly as if the
  field were missing: the request is the one of the row without the field. In particular
  an empty Title yields \<^verbatim>\<open>Untitled Issue\<close>, an empty Priority yields 0, an empty Estimate
  yields an absent estimate, an empty Status an absent stateId and an empty Labels an
  absent labelIds.
\<close>

theorem empty_cell_as_missing:
  "issueRequest tid sm lm (row(k \<mapsto> [])) = issueRequest tid sm lm (row(k := None)) \<and>
   title (issueRequest tid sm lm (row(''Title'' \<mapsto> []))) = ''Untitled Issue'' \<and>
   priority (issueRequest tid sm lm (row(''Priority'' \<mapsto> []))) = Num 0 \<and>
   estimate (issueRequest tid sm lm (row(''Estimate'' \<mapsto> []))) = None \<and>
   stateId (issueRequest tid sm lm (row(''Status'' \<mapsto> []))) = Undefined \<and>
   labelIds (issueRequest tid sm lm (row(''Labels'' \<mapsto> []))) = None"
proof -
  have "title (issueRequest tid sm lm (row(''Title'' \<mapsto> []))) = ''Untitled Issue''"
    by (simp add: issueRequest_def present_def Let_def)
  moreover have "priority (issueRequest tid sm lm (row(''Priority'' \<mapsto> []))) = Num 0"
    by (simp add: issueRequest_def present_def Let_def)
  moreover have "estimate (issueRequest tid sm lm (row(''Estimate'' \<mapsto> []))) = None"
    by (simp add: issueRequest_def present_def Let_def)
  moreover have "stateId (issueRequest tid sm lm (row(''Status'' \<mapsto> []))) = Undefined"
    by (simp add: issueRequest_def present_def Let_def)
  moreover have "labelIds (issueRequest tid sm lm (row(''Labels'' \<mapsto> []))) = None"
    by (simp add: issueRequest_def present_def Let_def)
  ultimately show ?thesis using issueRequest_empty_cell by blast
qed

section \<open>The import driver: counting and failures\<close>

lemma processRow_one_counter:
  "(successCount (processRow c tid sm lm st row) = successCount st + 1 \<and>
    failCount (processRow c tid sm lm st row) = failCount st) \<or>
   (successCount (processRow c tid sm lm st row) = successCount st \<and>
    failCount (processRow c tid sm lm st row) = failCount st + 1)"
  by (simp add: processRow_def Let_def split: create_outcome.splits)

lemma processRow_counts:
  "successCount (processRow c tid sm lm st row) + failCount (processRow c tid sm lm st row)
   = successCount st + failCount st + 1"
  using processRow_one_counter [of c tid sm lm st row] by auto

lemma processRow_console:
  "length (console (processRow c tid sm lm st row)) = length (console st) + 1"
  by (simp add: processRow_def Let_def split: create_outcome.splits)

lemma importRows_counts:
  "successCount (importRows c tid sm lm st rows) + failCount (importRows c tid sm lm st rows)
   = successCount st + failCount st + length rows"
  unfolding importRows_def
  by (induction rows arbitrary: st) (simp_all add: processRow_counts)

lemma importRows_console:
  "length (console (importRows c tid sm lm st rows)) = length (console st) + length rows"
  unfolding importRows_def
  by (induction rows arbitrary: st) (simp_all add: processRow_console)

lemma runImport_counts:
  "successCount (runImport c tid sm lm rows w) + failCount (runImport c tid sm lm rows w)
   = length rows"
  by (simp add: runImport_def Let_def importRows_counts)

text \<open>
  C6. After a full run over any list of input rows, successCount plus failCount equals
  the number of input rows; and one turn of the loop adds one to exactly one of the two
  counters and leaves the other as it was.
\<close>

theorem counts_add_up_to_rows:
  "(main teams selection wstates labels go results createIssue w = Imported st
      \<longrightarrow> successCount st + failCount st = length results) \<and>
   ((successCount (processRow createIssue tid sm lm st0 row) = successCount st0 + 1 \<and>
     failCount (processRow createIssue tid sm lm st0 row) = failCount st0) \<or>
    (successCount (processRow createIssue tid sm lm st0 row) = successCount st0 \<and>
     failCount (processRow createIssue tid sm lm st0 row) = failCount st0 + 1))"
proof -
  have "successCount st + failCount st = length results"
    if "main teams selection wstates labels go results createIssue w = Imported st"
    using that
    by (auto simp: main_def Let_def runImport_counts split: if_splits sum.splits fatal.splits)
  then show ?thesis using processRow_one_counter [of createIssue tid sm lm st0 row] by blast
qed

theorem counts_add_up_to_rows_witness:
  "main [\<lparr> team_id = ''id-eng'', team_key = ''ENG'', team_name = ''Engineering'' \<rparr>]
        ''ENG'' (\<lambda>t. []) [] True
        [[''Title'' \<mapsto> ''ok''], [''Title'' \<mapsto> ''bad''], Map.empty]
        (\<lambda>w req. (if title req = ''bad'' then Throws (JsError ''boom'') else IssueUrl ''u'', Suc w))
        (0::nat)
     = Imported \<lparr> successCount = 2, failCount = 1,
                  console = [Importing 3, Created ''ok'' ''u'', Failed ''bad'' ''boom'',
                             Created ''Untitled Issue'' ''u'', Done 2 1],
                  world = 3 \<rparr> \<and>
   (2::nat) + 1 = length [[''Title'' \<mapsto> ''ok''], [''Title'' \<mapsto> ''bad''], (Map.empty :: raw_row)]"
proof -
  have r: "main [\<lparr> team_id = ''id-eng'', team_key = ''ENG'', team_name = ''Engineering'' \<rparr>]
        ''ENG'' (\<lambda>t. []) [] True
        [[''Title'' \<mapsto> ''ok''], [''Title'' \<mapsto> ''bad''], Map.empty]
        (\<lambda>w req. (if title req = ''bad'' then Throws (JsError ''boom'') else IssueUrl ''u'', Suc w))
        (0::nat)
     = Imported \<lparr> successCount = 2, failCount = 1,
                  console = [Importing 3, Created ''ok'' ''u'', Failed ''bad'' ''boom'',
                             Created ''Untitled Issue'' ''u'', Done 2 1],
                  world = 3 \<rparr>"
    by code_simp
  from counts_add_up_to_rows
         [where teams = "[\<lparr> team_id = ''id-eng'', team_key = ''ENG'',
                            team_name = ''Engineering'' \<rparr>]"
            and selection = "''ENG''" and wstates = "\<lambda>t. []" and labels = "[]" and go = True
            and results = "[[''Title'' \<mapsto> ''ok''], [''Title'' \<mapsto> ''bad''], Map.empty]"
            and createIssue = "\<lambda>w req. (if title req = ''bad'' then Throws (JsError ''boom'')
                                         else IssueUrl ''u'', Suc w)"
            and w = "0::nat"
            and st = "\<lparr> successCount = 2, failCount = 1,
                         console = [Importing 3, Created ''ok'' ''u'', Failed ''bad'' ''boom'',
                                    Created ''Untitled Issue'' ''u'', Done 2 1],
                         world = 3 \<rparr>"] r
  show ?thesis by simp
qed

text \<open>
  C7. For every row whose issue-creation call fails with an error, the driver takes the
  error's message, adds one to failCount, prints one failure line (with the title and the
  message) and goes on with the remaining rows in order: each of them prints its line and
  is counted, so the failure does not end the batch.
\<close>

theorem failed_row_counted_and_skipped:
  assumes "createIssue (world st) (issueRequest tid sm lm row) = (Throws err, w')"
  shows "processRow createIssue tid sm lm st row
           = st\<lparr> failCount := failCount st + 1,
                 console := console st @ [Failed (title (issueRequest tid sm lm row)) (message err)],
                 world := w' \<rparr> \<and>
         importRows createIssue tid sm lm st (row # rest)
           = importRows createIssue tid sm lm (processRow createIssue tid sm lm st row) rest \<and>
         length (console (importRows createIssue tid sm lm st (row # rest)))
           = length (console st) + 1 + length rest \<and>
         successCount (importRows createIssue tid sm lm st (row # rest))
           + failCount (importRows createIssue tid sm lm st (row # rest))
           = successCount st + failCount st + 1 + length rest"
proof -
  have a: "processRow createIssue tid sm lm st row
           = st\<lparr> failCount := failCount st + 1,
                 console := console st @ [Failed (title (issueRequest tid sm lm row)) (message err)],
                 world := w' \<rparr>"
    using assms by (simp add: processRow_def Let_def)
  have b: "importRows createIssue tid sm lm st (row # rest)
           = importRows createIssue tid sm lm (processRow createIssue tid sm lm st row) rest"
    by (simp add: importRows_def)
  have c: "length (console (importRows createIssue tid sm lm st (row # rest)))
           = length (console st) + 1 + length rest"
    by (simp add: importRows_console)
  have d: "successCount (importRows createIssue tid sm lm st (row # rest))
           + failCount (importRows createIssue tid sm lm st (row # rest))
           = successCount st + failCount st + 1 + length rest"
    by (simp add: importRows_counts)
  from a b c d show ?thesis by blast
qed

theorem failed_row_counted_and_skipped_witness:
  "processRow
     (\<lambda>w req. (if title req = ''bad'' then Throws (JsError ''boom'') else IssueUrl ''u'', Suc w))
     ''T'' Map.empty Map.empty
     \<lparr> successCount = 4, failCount = 2, console = [], world = (6::nat) \<rparr>
     [''Title'' \<mapsto> ''bad'']
   = \<lparr> successCount = 4, failCount = 3, console = [Failed ''bad'' ''boom''], world = 7 \<rparr> \<and>
   importRows
     (\<lambda>w req. (if title req = ''bad'' then Throws (JsError ''boom'') else IssueUrl ''u'', Suc w))
     ''T'' Map.empty Map.empty
     \<lparr> successCount = 4, failCount = 2, console = [], world = (6::nat) \<rparr>
     [[''Title'' \<mapsto> ''bad''], [''Title'' \<mapsto> ''next'']]
   = \<lparr> successCount = 5, failCount = 3,
       console = [Failed ''bad'' ''boom'', Created ''next'' ''u''], world = 8 \<rparr>"
proof -
  have h: "(\<lambda>w req. (if title req = ''bad'' then Throws (JsError ''boom'') else IssueUrl ''u'', Suc w))
             (world \<lparr> successCount = 4, failCount = 2, console = [], world = (6::nat) \<rparr>)
             (issueRequest ''T'' Map.empty Map.empty [''Title'' \<mapsto> ''bad''])
           = (Throws (JsError ''boom''), 7)"
    by (simp add: issueRequest_def present_def Let_def)
  have t: "title (issueRequest ''T'' Map.empty Map.empty [''Title'' \<mapsto> ''bad'']) = ''bad''"
    by (simp add: issueRequest_def present_def Let_def)
  have n: "processRow
     (\<lambda>w req. (if title req = ''bad'' then Throws (JsError ''boom'') else IssueUrl ''u'', Suc w))
     ''T'' Map.empty Map.empty
     \<lparr> successCount = 4, failCount = 3, console = [Failed ''bad'' ''boom''], world = (7::nat) \<rparr>
     [''Title'' \<mapsto> ''next'']
     = \<lparr> successCount = 5, failCount = 3,
         console = [Failed ''bad'' ''boom'', Created ''next'' ''u''], world = 8 \<rparr>"
    by (simp add: processRow_def issueRequest_def present_def Let_def)
  from failed_row_counted_and_skipped
         [where createIssue = "\<lambda>w req. (if title req = ''bad'' then Throws (JsError ''boom'')
                                         else IssueUrl ''u'', Suc w)"
            and st = "\<lparr> successCount = 4, failCount = 2, console = [], world = (6::nat) \<rparr>"
            and tid = "''T''" and sm = Map.empty and lm = Map.empty
            and row = "[''Title'' \<mapsto> ''bad'']" and err = "JsError ''boom''" and w' = 7
            and rest = "[[''Title'' \<mapsto> ''next'']]", OF h] t n
  show ?thesis by (simp add: importRows_def)
qed

section \<open>Numeric fields: what \<^verbatim>\<open>parseInt\<close> reads\<close>

lemma digit_not_space: "isDecDigit c \<Longrightarrow> \<not> isWhiteSpace c"
  by (auto simp: isDecDigit_def isWhiteSpace_def Let_def)

lemma digit_not_sign: "isDecDigit c \<Longrightarrow> c \<noteq> CHR ''+'' \<and> c \<noteq> CHR ''-''"
  by (auto simp: isDecDigit_def Let_def)

lemma digit_not_x: "isDecDigit c \<Longrightarrow> c \<noteq> CHR ''x'' \<and> c \<noteq> CHR ''X''"
  by (auto simp: isDecDigit_def Let_def)

lemma digitVal_nonneg: "isDecDigit c \<Longrightarrow> 0 \<le> digitVal c"
  by (auto simp: isDecDigit_def digitVal_def Let_def)

lemma foldl_digits_nonneg:
  "list_all isDecDigit ds \<Longrightarrow> 0 \<le> acc \<Longrightarrow> 0 \<le> foldl (\<lambda>acc c. acc * 10 + digitVal c) acc ds"
  by (induction ds arbitrary: acc) (simp_all add: digitVal_nonneg)

lemma digitsValue_nonneg: "list_all isDecDigit ds \<Longrightarrow> 0 \<le> digitsValue 10 ds"
  by (simp add: digitsValue_def foldl_digits_nonneg)

lemma takeWhile_prefix:
  "list_all P ds \<Longrightarrow> rest = [] \<or> \<not> P (hd rest) \<Longrightarrow> takeWhile P (ds @ rest) = ds"
  by (cases rest) (auto simp: list_all_iff takeWhile_append2 [of ds P])

lemma not_hex_prefix:
  assumes "ds \<noteq> []" and "list_all isDecDigit ds"
    and "\<not> (ds = ''0'' \<and> rest \<noteq> [] \<and> (hd rest = CHR ''x'' \<or> hd rest = CHR ''X''))"
  shows "take 2 (ds @ rest) \<noteq> ''0x'' \<and> take 2 (ds @ rest) \<noteq> ''0X''"
proof (cases ds)
  case Nil
  with assms show ?thesis by simp
next
  case (Cons d ds')
  show ?thesis
  proof (cases ds')
    case Nil
    with Cons assms show ?thesis by (cases rest) auto
  next
    case (Cons e ds'')
    with \<open>ds = d # ds'\<close> assms have "isDecDigit e" by simp
    then have "e \<noteq> CHR ''x'' \<and> e \<noteq> CHR ''X''" by (rule digit_not_x)
    with Cons \<open>ds = d # ds'\<close> show ?thesis by simp
  qed
qed

text \<open>\<^verbatim>\<open>parseInt\<close> on a text with no leading white space, no sign and no hex marker.\<close>

lemma parseInt_plain:
  assumes t: "trimStart s = s"
    and sg: "(case s of [] \<Rightarrow> 1 | c # _ \<Rightarrow> if c = CHR ''-'' then - 1 else (1::int)) = 1"
    and s1: "(case s of [] \<Rightarrow> [] | c # cs \<Rightarrow> if c = CHR ''+'' \<or> c = CHR ''-'' then cs else s) = s"
    and hx: "take 2 s \<noteq> ''0x'' \<and> take 2 s \<noteq> ''0X''"
  shows "parseInt s =
           (if takeWhile isDecDigit s = [] then NaN
            else if digitsValue 10 (takeWhile isDecDigit s) = 0 then Num 0
            else toNumber (digitsValue 10 (takeWhile isDecDigit s)))"
proof -
  have r: "isRadixDigit 10 = isDecDigit" by (rule ext) (simp add: isRadixDigit_def)
  show ?thesis
    unfolding parseInt_def Let_def t sg s1 using hx by (simp add: r)
qed

lemma parseInt_prefix:
  assumes ne: "ds \<noteq> []" and dig: "list_all isDecDigit ds"
    and rest: "rest = [] \<or> \<not> isDecDigit (hd rest)"
    and nohex: "\<not> (ds = ''0'' \<and> rest \<noteq> [] \<and> (hd rest = CHR ''x'' \<or> hd rest = CHR ''X''))"
    and small: "digitsValue 10 ds \<le> 2 ^ 53"
  shows "parseInt (ds @ rest) = Num (digitsValue 10 ds)"
proof -
  from ne obtain d ds' where ds: "ds = d # ds'" by (cases ds) auto
  with dig have d: "isDecDigit d" by simp
  have t: "trimStart (ds @ rest) = ds @ rest"
    using ds digit_not_space [OF d] by (simp add: trimStart_def)
  have sign: "d \<noteq> CHR ''+'' \<and> d \<noteq> CHR ''-''" using d by (rule digit_not_sign)
  have sg: "(case ds @ rest of [] \<Rightarrow> 1 | c # _ \<Rightarrow> if c = CHR ''-'' then - 1 else (1::int)) = 1"
    using ds sign by simp
  have s1: "(case ds @ rest of [] \<Rightarrow> []
             | c # cs \<Rightarrow> if c = CHR ''+'' \<or> c = CHR ''-'' then cs else ds @ rest) = ds @ rest"
    using ds sign by simp
  have hx: "take 2 (ds @ rest) \<noteq> ''0x'' \<and> take 2 (ds @ rest) \<noteq> ''0X''"
    using ne dig nohex by (rule not_hex_prefix)
  have Z: "takeWhile isDecDigit (ds @ rest) = ds"
    using dig rest by (rule takeWhile_prefix)
  have nn: "0 \<le> digitsValue 10 ds" using dig by (rule digitsValue_nonneg)
  show ?thesis
    unfolding parseInt_plain [OF t sg s1 hx] Z using ne nn small by (simp add: toNumber_def)
qed

text \<open>
  C10, as stated: for every row whose Priority or Estimate value begins with a decimal
  integer prefix followed by non-numeric text, the parsed result is the integer value of
  that prefix. It fails where the text begins with \<^verbatim>\<open>0x\<close>: the prefix is \<^verbatim>\<open>0\<close>, and
  \<^verbatim>\<open>parseInt\<close> reads what follows in radix 16, so \<^verbatim>\<open>0xA - urgent\<close> gives 10, and
  \<^verbatim>\<open>0xyz\<close> gives 0 as priority but NaN as estimate.
\<close>

theorem hex_marker_counterexample:
  "list_all isDecDigit ''0'' \<and> \<not> isDecDigit (hd ''xA - urgent'') \<and> digitsValue 10 ''0'' = 0 \<and>
   priority (issueRequest ''T'' Map.empty Map.empty [''Priority'' \<mapsto> ''0'' @ ''xA - urgent''])
     = Num 10 \<and>
   estimate (issueRequest ''T'' Map.empty Map.empty [''Estimate'' \<mapsto> ''0'' @ ''xA - urgent''])
     = Some (Num 10) \<and>
   \<not> isDecDigit (hd ''xyz'') \<and>
   estimate (issueRequest ''T'' Map.empty Map.empty [''Estimate'' \<mapsto> ''0'' @ ''xyz'']) = Some NaN"
  by code_simp

text \<open>A prefix beyond \<open>2 ^ 53\<close> is not read exactly either.\<close>

lemma large_prefix_inexact:
  "list_all isDecDigit ''9007199254740993'' \<and> \<not> isDecDigit (hd '' pts'') \<and>
   digitsValue 10 ''9007199254740993'' = 9007199254740993 \<and>
   estimate (issueRequest ''T'' Map.empty Map.empty
               [''Estimate'' \<mapsto> ''9007199254740993'' @ '' pts''])
     = Some (Inexact 9007199254740993)"
  by code_simp

text \<open>
  C10, amended: for every row whose Priority or Estimate value begins with a decimal
  integer prefix followed by a character that is not a decimal digit, where the value does
  not begin with \<^verbatim>\<open>0x\<close> or \<^verbatim>\<open>0X\<close> and the prefix denotes at most \<open>2 ^ 53\<close>, the parsed
  result is the integer value of that prefix (for the priority also when that value is 0).
\<close>

theorem decimal_prefix_parsed:
  assumes "ds \<noteq> []" and "list_all isDecDigit ds"
    and "rest \<noteq> []" and "\<not> isDecDigit (hd rest)"
    and "\<not> (ds = ''0'' \<and> (hd rest = CHR ''x'' \<or> hd rest = CHR ''X''))"
    and "digitsValue 10 ds \<le> 2 ^ 53"
  shows "(row ''Priority'' = Some (ds @ rest) \<longrightarrow>
            priority (issueRequest tid sm lm row) = Num (digitsValue 10 ds)) \<and>
         (row ''Estimate'' = Some (ds @ rest) \<longrightarrow>
            estimate (issueRequest tid sm lm row) = Some (Num (digitsValue 10 ds)))"
proof -
  have p: "parseInt (ds @ rest) = Num (digitsValue 10 ds)"
    using assms by (intro parseInt_prefix) auto
  show ?thesis using p assms(1)
    by (auto simp: issueRequest_def present_def Let_def)
qed

theorem decimal_prefix_parsed_witness:
  "priority (issueRequest ''T'' Map.empty Map.empty [''Priority'' \<mapsto> ''3 - urgent'']) = Num 3 \<and>
   estimate (issueRequest ''T'' Map.empty Map.empty [''Estimate'' \<mapsto> ''3 - urgent'']) = Some (Num 3)"
proof -
  have h1: "''3'' \<noteq> []" by simp
  have h2: "list_all isDecDigit ''3''" by code_simp
  have h3: "'' - urgent'' \<noteq> []" by simp
  have h4: "\<not> isDecDigit (hd '' - urgent'')" by code_simp
  have h5: "\<not> (''3'' = ''0'' \<and> (hd '' - urgent'' = CHR ''x'' \<or> hd '' - urgent'' = CHR ''X''))"
    by simp
  have h6: "digitsValue 10 ''3'' \<le> 2 ^ 53" by code_simp
  have v: "digitsValue 10 ''3'' = 3" by code_simp
  from decimal_prefix_parsed [OF h1 h2 h3 h4 h5 h6, of "[''Priority'' \<mapsto> ''3 - urgent'']"
                                "''T''" Map.empty Map.empty]
       decimal_prefix_parsed [OF h1 h2 h3 h4 h5 h6, of "[''Estimate'' \<mapsto> ''3 - urgent'']"
                                "''T''" Map.empty Map.empty]
  show ?thesis by (simp add: v)
qed

section \<open>Status and label lookup\<close>

text \<open>Lowercasing leaves no capital letter, so of the names in \<^verbatim>\<open>Object.prototype\<close>
  a lowercased name can only be \<^verbatim>\<open>constructor\<close> or \<^verbatim>\<open>__proto__\<close>.\<close>

lemma lowerChar_not_upper:
  "\<not> (65 \<le> (of_char (lowerChar c) :: nat) \<and> (of_char (lowerChar c) :: nat) \<le> 90)"
  by (auto simp: lowerChar_def Let_def)

lemma toLowerCase_no_upper:
  "c \<in> set (toLowerCase s) \<Longrightarrow> \<not> (65 \<le> (of_char c :: nat) \<and> (of_char c :: nat) \<le> 90)"
  using lowerChar_not_upper by (auto simp: toLowerCase_def)

lemma lowercased_prototype_names:
  assumes "toLowerCase s \<in> set objectPrototypeProps"
  shows "toLowerCase s = ''constructor'' \<or> toLowerCase s = ''__proto__''"
proof -
  have u: "\<And>c. c \<in> set (toLowerCase s) \<Longrightarrow> c \<noteq> CHR ''O'' \<and> c \<noteq> CHR ''P'' \<and> c \<noteq> CHR ''E''
              \<and> c \<noteq> CHR ''L'' \<and> c \<noteq> CHR ''S'' \<and> c \<noteq> CHR ''G''"
    using toLowerCase_no_upper [of _ s] by fastforce
  show ?thesis
    using assms u unfolding objectPrototypeProps_def by fastforce
qed

text \<open>Away from these two names an unknown status is dropped.\<close>

lemma stateId_unknown_absent:
  assumes "row ''Status'' = Some s" and "s \<noteq> []"
    and "statusMap (toLowerCase (trim s)) = None"
    and "toLowerCase (trim s) \<noteq> ''constructor''" and "toLowerCase (trim s) \<noteq> ''__proto__''"
  shows "stateId (issueRequest tid statusMap labelMap row) = Undefined"
proof -
  have "toLowerCase (trim s) \<notin> set objectPrototypeProps"
    using assms(4,5) lowercased_prototype_names by blast
  then show ?thesis
    using assms(1-3) by (simp add: issueRequest_def present_def getProp_def Let_def)
qed

text \<open>
  C1. The claim: for every row in which the Status field is present but its trimmed and
  lowercased value is not a key of the status lookup, the stateId of the produced request
  is absent. The code does not do this for the status \<^verbatim>\<open>constructor\<close> (nor for
  \<^verbatim>\<open>__proto__\<close>): the lookup table is an ordinary object, the read finds the inherited
  property, and the request carries that object as its stateId.
\<close>

theorem status_constructor_not_absent:
  "present [''Status'' \<mapsto> ''constructor''] ''Status'' \<and>
   buildStatusMap [\<lparr> state_id = ''S1'', state_name = ''Todo'' \<rparr>,
                   \<lparr> state_id = ''S2'', state_name = ''Done'' \<rparr>]
     (toLowerCase (trim ''constructor'')) = None \<and>
   stateId (issueRequest ''T''
              (buildStatusMap [\<lparr> state_id = ''S1'', state_name = ''Todo'' \<rparr>,
                               \<lparr> state_id = ''S2'', state_name = ''Done'' \<rparr>])
              Map.empty [''Status'' \<mapsto> ''constructor''])
     = Inherited ''constructor''"
  by code_simp

text \<open>The loop over the label names keeps, in order, the lookups that are truthy.\<close>

lemma labels_fold:
  "foldl (\<lambda>labelIds name. if truthy (getProp labelMap name)
                           then labelIds @ [getProp labelMap name] else labelIds) acc names
   = acc @ filter truthy (map (getProp labelMap) names)"
  by (induction names arbitrary: acc) simp_all

lemma resolved_hits:
  assumes "\<forall>t\<in>set names. t \<noteq> ''constructor'' \<and> t \<noteq> ''__proto__'' \<or> labelMap t \<noteq> None"
    and "\<forall>t\<in>set names. \<exists>u. t = toLowerCase u"
    and "\<forall>k v. labelMap k = Some v \<longrightarrow> v \<noteq> []"
  shows "filter truthy (map (getProp labelMap) names)
         = map (\<lambda>t. Str (the (labelMap t))) (filter (\<lambda>t. labelMap t \<noteq> None) names)"
  using assms
proof (induction names)
  case Nil
  show ?case by simp
next
  case (Cons t ts)
  show ?case
  proof (cases "labelMap t")
    case (Some v)
    with Cons show ?thesis by (auto simp: getProp_def)
  next
    case None
    from Cons.prems(2) obtain u where "t = toLowerCase u" by auto
    with None Cons.prems(1) have "t \<notin> set objectPrototypeProps"
      using lowercased_prototype_names [of u] by auto
    with None Cons show ?thesis by (auto simp: getProp_def)
  qed
qed

text \<open>Where no label name is \<^verbatim>\<open>constructor\<close> or \<^verbatim>\<open>__proto__\<close> (or the workspace has a
  label of that name) and no label id is empty, labelIds is the list of the ids of the
  names that are keys, in order and with repetitions, and it is absent when there is none.\<close>

lemma labelIds_recognized:
  assumes "row ''Labels'' = Some s" and "s \<noteq> []"
    and "names = map (\<lambda>x. toLowerCase (trim x)) (split_comma s)"
    and "\<forall>t\<in>set names. t \<noteq> ''constructor'' \<and> t \<noteq> ''__proto__'' \<or> labelMap t \<noteq> None"
    and "\<forall>k v. labelMap k = Some v \<longrightarrow> v \<noteq> []"
  shows "labelIds (issueRequest tid statusMap labelMap row)
         = (if filter (\<lambda>t. labelMap t \<noteq> None) names = [] then None
            else Some (map (\<lambda>t. Str (the (labelMap t))) (filter (\<lambda>t. labelMap t \<noteq> None) names)))"
proof -
  have low: "\<forall>t\<in>set names. \<exists>u. t = toLowerCase u"
    using assms(3) by auto
  have "filter truthy (map (getProp labelMap) names)
         = map (\<lambda>t. Str (the (labelMap t))) (filter (\<lambda>t. labelMap t \<noteq> None) names)"
    using assms(4) low assms(5) by (rule resolved_hits)
  then show ?thesis
    using assms(1-3) by (simp add: issueRequest_def present_def Let_def labels_fold)
qed

text \<open>
  C2. The claim: for every row in which the Labels field is present, labelIds is exactly
  the lookup results of the comma-separated, trimmed, lowercased tokens that are keys of
  the label lookup, in order and with duplicates, and it is absent when no token resolves.
  The code does not do this for the token \<^verbatim>\<open>constructor\<close> (nor for \<^verbatim>\<open>__proto__\<close>): it
  is not a key, yet the read of the lookup object finds the inherited property, which is
  truthy, and it is pushed. So \<^verbatim>\<open>Bug, constructor\<close> gives two entries, and
  \<^verbatim>\<open>constructor\<close> alone gives a list of one entry instead of an absent labelIds.
\<close>

theorem label_constructor_not_dropped:
  "present [''Labels'' \<mapsto> ''Bug, constructor''] ''Labels'' \<and>
   map (\<lambda>s. toLowerCase (trim s)) (split_comma ''Bug, constructor'') = [''bug'', ''constructor''] \<and>
   buildLabelMap [\<lparr> label_id = ''L1'', label_name = ''Bug'' \<rparr>] ''bug'' = Some ''L1'' \<and>
   buildLabelMap [\<lparr> label_id = ''L1'', label_name = ''Bug'' \<rparr>] ''constructor'' = None \<and>
   labelIds (issueRequest ''T'' Map.empty (buildLabelMap [\<lparr> label_id = ''L1'', label_name = ''Bug'' \<rparr>])
               [''Labels'' \<mapsto> ''Bug, constructor''])
     = Some [Str ''L1'', Inherited ''constructor''] \<and>
   labelIds (issueRequest ''T'' Map.empty (buildLabelMap [\<lparr> label_id = ''L1'', label_name = ''Bug'' \<rparr>])
               [''Labels'' \<mapsto> ''constructor''])
     = Some [Inherited ''constructor'']"
  by code_simp

end
